theory Spec2Isabelle
  imports Main "HOL-Library.Word" "HOL-Library.AList"
begin

section \<open>IsolateJS: the script manager and its HTTP adapter\<close>

text \<open>
  A shallow embedding of \<^verbatim>\<open>ijs_manager.go\<close>, \<^verbatim>\<open>ijs_www.go\<close> and the parts of the
  configuration and shutdown files they call. Each Go function is one HOL function of the
  same name that takes the \<^verbatim>\<open>ScriptManager\<close> and returns it updated. What a goroutine
  does to the world outside the struct (engine calls, context cancellation, sleeps,
  restart) is appended to a trace, in program order.
\<close>

subsection \<open>Errors and values\<close>

text \<open>
  The three sentinel errors of \<^verbatim>\<open>ijs_manager.go\<close> (lines 18-22) and the wrapped error
  \<^verbatim>\<open>fmt.Errorf("script execution failed: %w", err)\<close> of \<^verbatim>\<open>executeScript\<close>. Go compares
  errors by identity in \<^verbatim>\<open>handleExecutionError\<close>; distinct constructors are distinct
  identities.
\<close>

datatype go_error =
    ErrScriptTimeout
  | ErrScriptTooLarge
  | ErrNoWorkerAvailable
  | ErrExecutionFailed string

fun errorString :: "go_error \<Rightarrow> string" where
  "errorString ErrScriptTimeout = ''script execution timed out''"
| "errorString ErrScriptTooLarge = ''script size exceeds maximum limit''"
| "errorString ErrNoWorkerAvailable = ''no worker available to process script''"
| "errorString (ErrExecutionFailed detail) = ''script execution failed: '' @ detail"

text \<open>
  What \<^verbatim>\<open>value.Export()\<close> hands back as \<^verbatim>\<open>interface{}\<close>: \<^verbatim>\<open>nil\<close> for undefined and null,
  a bool, an integer, a string, or a float that \<^verbatim>\<open>encoding/json\<close> refuses (NaN).
\<close>

datatype go_value = GoNil | GoBool bool | GoInt int | GoString string | GoNaN

subsection \<open>The trace of outside effects\<close>

datatype event =
    EvNewVM nat                \<comment> \<open>\<^verbatim>\<open>sobek.New()\<close> returned the VM with this handle\<close>
  | EvSet nat string           \<comment> \<open>\<^verbatim>\<open>vm.Set(name, nil)\<close>\<close>
  | EvRunString nat string     \<comment> \<open>\<^verbatim>\<open>vm.RunString(js)\<close> was started\<close>
  | EvInterrupt nat string     \<comment> \<open>\<^verbatim>\<open>vm.Interrupt(reason)\<close>\<close>
  | EvCancel nat               \<comment> \<open>a \<^verbatim>\<open>context.CancelFunc\<close> was called\<close>
  | EvAccepting bool           \<comment> \<open>\<^verbatim>\<open>atomic.StoreInt32(&sm.acceptingScript, _)\<close>\<close>
  | EvSleep nat                \<comment> \<open>\<^verbatim>\<open>time.Sleep\<close>, in milliseconds\<close>
  | EvGC                       \<comment> \<open>\<^verbatim>\<open>runtime.GC(); debug.FreeOSMemory()\<close>\<close>
  | EvRestart                  \<comment> \<open>\<^verbatim>\<open>restart(server, scriptManager)\<close> was called\<close>

subsection \<open>The structs of \<^verbatim>\<open>ijs_manager.go\<close>\<close>

text \<open>
  \<^verbatim>\<open>RunningScriptInfo\<close>: the cancel function (\<open>None\<close> is Go's \<^verbatim>\<open>nil\<close>) and the VM are
  pointers, modelled as handles.
\<close>

record RunningScriptInfo =
  cancelFunc :: "nat option"
  vm :: nat
  script :: string

record ScriptJob =
  Script :: string

record ScriptResult =
  Result :: go_value
  Error :: "go_error option"

text \<open>
  \<^verbatim>\<open>ScriptManager\<close>. The map \<^verbatim>\<open>runningScripts\<close> is an association list with one pair per
  key; its order stands for the order in which \<^verbatim>\<open>range\<close> happens to visit the map.
  \<^verbatim>\<open>jobQueue\<close> is the buffer of the channel and \<^verbatim>\<open>workerSem\<close> the number of tokens in the
  semaphore channel; both channels are made with capacity \<^verbatim>\<open>workerCount\<close>. The mutex and
  the condition variable carry no data: every function below is one critical section.
  \<^verbatim>\<open>maxScriptSize\<close> is an \<^verbatim>\<open>int64\<close> that is only compared, \<^verbatim>\<open>acceptingScript\<close> an
  \<^verbatim>\<open>int32\<close> that only ever holds 0 or 1; both are integers here.
  The last four fields are not in the struct: the number of VMs and of contexts made so
  far (the next handle), whether the process has exited, and the trace.
\<close>

record ScriptManager =
  runningScripts :: "(string \<times> RunningScriptInfo) list"
  maxScriptSize :: int
  jobQueue :: "ScriptJob list"
  workerSem :: nat
  scriptCounter :: "64 word"
  acceptingScript :: int
  workerCount :: nat
  vmCount :: nat
  ctxCount :: nat
  exited :: bool
  trace :: "event list"

definition GetAcceptingScript :: "ScriptManager \<Rightarrow> bool" where
  "GetAcceptingScript sm = (acceptingScript sm = 1)"

definition setAcceptingScript :: "bool \<Rightarrow> ScriptManager \<Rightarrow> ScriptManager" where
  "setAcceptingScript v sm =
     sm\<lparr>acceptingScript := (if v then 1 else 0), trace := trace sm @ [EvAccepting v]\<rparr>"

subsection \<open>\<^verbatim>\<open>cancelAllScripts\<close>\<close>

text \<open>
  Lines 198-210. For each entry the loop calls \<^verbatim>\<open>entry.vm.Interrupt("Script cancelled")\<close>,
  calls \<^verbatim>\<open>entry.cancelFunc\<close> unless it is \<^verbatim>\<open>nil\<close>, and deletes the key from the map it
  is ranging over. \<open>entryEvents\<close> is what one iteration adds to the trace.
\<close>

definition entryEvents :: "string \<times> RunningScriptInfo \<Rightarrow> event list" where
  "entryEvents p =
     EvInterrupt (vm (snd p)) ''Script cancelled'' #
       (case cancelFunc (snd p) of None \<Rightarrow> [] | Some c \<Rightarrow> [EvCancel c])"

fun cancelEntries :: "(string \<times> RunningScriptInfo) list \<Rightarrow> ScriptManager \<Rightarrow> ScriptManager" where
  "cancelEntries [] sm = sm"
| "cancelEntries (p # rest) sm =
     cancelEntries rest
       (sm\<lparr>trace := trace sm @ entryEvents p,
           runningScripts := AList.delete (fst p) (runningScripts sm)\<rparr>)"

definition cancelAllScripts :: "ScriptManager \<Rightarrow> ScriptManager" where
  "cancelAllScripts sm = cancelEntries (runningScripts sm) sm"

text \<open>
  The deferred function of the evaluator goroutine in \<^verbatim>\<open>executeScript\<close> (lines 235-241):
  \<^verbatim>\<open>delete(sm.runningScripts, id)\<close> under the lock.
\<close>

definition unregister :: "string \<Rightarrow> ScriptManager \<Rightarrow> ScriptManager" where
  "unregister sid sm = sm\<lparr>runningScripts := AList.delete sid (runningScripts sm)\<rparr>"

subsection \<open>The engine\<close>

text \<open>
  The scripting engine (\<^verbatim>\<open>github.com/grafana/sobek\<close>) is not part of the repository; it
  is a parameter. \<open>builtins\<close> are the global bindings of a runtime fresh from
  \<^verbatim>\<open>sobek.New()\<close>. \<open>RunString\<close> is what \<^verbatim>\<open>vm.RunString(js)\<close> returns, followed by
  \<^verbatim>\<open>value.Export()\<close>, for a VM with the given global bindings: \<open>Inl\<close> the message of the
  engine's error, \<open>Inr\<close> the exported value. Its last argument is the reason of the
  \<^verbatim>\<open>vm.Interrupt\<close> that \<^verbatim>\<open>executeScript\<close> itself issued during the run, if it issued one.
  A value of the engine is null, a function or other value known by its name, or an
  object with its properties.
\<close>

datatype js_value = JSNull | JSBuiltin string | JSObject "(string \<times> js_value) list"

record engine =
  builtins :: "string \<rightharpoonup> js_value"
  RunString :: "(string \<rightharpoonup> js_value) \<Rightarrow> string \<Rightarrow> string option \<Rightarrow> string + go_value"

definition restrictedGlobals :: "string list" where
  "restrictedGlobals =
     [''eval'', ''process'', ''child_process'', ''require'', ''global'', ''globalThis'',
      ''window'', ''self'', ''module'', ''exports'', ''__dirname'', ''__filename'',
      ''XMLHttpRequest'', ''fetch'', ''WebSocket'', ''Object.defineProperty'',
      ''Object.create'', ''Proxy'', ''exec'', ''execSync'', ''spawn'', ''fs'',
      ''FileSystem'', ''writeFile'', ''readFile'', ''Runtime.getRuntime'',
      ''setInterval'', ''setTimeout'', ''setImmediate'', ''crypto'', ''randomBytes'',
      ''document'', ''alert'', ''confirm'', ''prompt'']"

text \<open>
  Lines 213-218 of \<^verbatim>\<open>executeScript\<close>: the global bindings of the new VM after the loop
  \<^verbatim>\<open>for _, global := range restrictedGlobals { vm.Set(global, nil) }\<close>. \<^verbatim>\<open>vm.Set\<close> binds
  the property of that name on the global object; Go's \<^verbatim>\<open>nil\<close> becomes the script's null.
\<close>

definition restrictedVM :: "engine \<Rightarrow> (string \<rightharpoonup> js_value)" where
  "restrictedVM eng = fold (\<lambda>global g. g(global \<mapsto> JSNull)) restrictedGlobals (builtins eng)"

text \<open>
  Modelled from the spec: how the engine reads a name that a script mentions is not in
  the repository. The spec has a script that references a restricted name observe the
  binding at global scope. A name written in a script is an identifier, or a member
  expression \<^verbatim>\<open>a.b\<close>: the text of the name, split at its dots. An identifier observes the
  global binding of that name; a member expression observes the property of the object
  that its left part observes. \<open>None\<close> is no value (the name is not bound, or the left
  part is not an object).
\<close>

datatype reference = Ident string | Member reference string

primrec splitDots :: "string \<Rightarrow> string list" where
  "splitDots [] = [[]]"
| "splitDots (c # cs) =
     (if c = CHR ''.'' then [] # splitDots cs
      else case splitDots cs of
             [] \<Rightarrow> [[c]]
           | w # ws \<Rightarrow> (c # w) # ws)"

definition referenceOf :: "string \<Rightarrow> reference" where
  "referenceOf name =
     (case splitDots name of
        [] \<Rightarrow> Ident []
      | x # props \<Rightarrow> foldl Member (Ident x) props)"

fun observe :: "(string \<rightharpoonup> js_value) \<Rightarrow> reference \<Rightarrow> js_value option" where
  "observe g (Ident x) = g x"
| "observe g (Member r p) =
     (case observe g r of
        Some (JSObject props) \<Rightarrow> map_of props p
      | _ \<Rightarrow> None)"

subsection \<open>\<^verbatim>\<open>executeScript\<close>\<close>

text \<open>\<^verbatim>\<open>fmt.Sprintf("%d", n)\<close> for an unsigned \<open>n\<close>.\<close>

fun decimal :: "nat \<Rightarrow> string" where
  "decimal n =
     (if n < 10 then [''0123456789'' ! n]
      else decimal (n div 10) @ [''0123456789'' ! (n mod 10)])"

declare decimal.simps [simp del]

text \<open>
  The evaluator goroutine (lines 243-253) sends one \<^verbatim>\<open>ScriptResult\<close>: the wrapped error
  when \<^verbatim>\<open>RunString\<close> failed, the exported value otherwise.
\<close>

definition evaluatorResult :: "string + go_value \<Rightarrow> ScriptResult" where
  "evaluatorResult r =
     (case r of
        Inl err \<Rightarrow> \<lparr>Result = GoNil, Error = Some (ErrExecutionFailed err)\<rparr>
      | Inr v \<Rightarrow> \<lparr>Result = v, Error = None\<rparr>)"

text \<open>
  The \<^verbatim>\<open>select\<close> of lines 256-264 has two cases, and Go picks among the ready ones. The
  schedule says which case ran: the result arrived first; or \<^verbatim>\<open>ctx.Done()\<close> was taken
  (the deadline passed or the cancel function was called) while the evaluator was still
  running; or \<^verbatim>\<open>ctx.Done()\<close> was taken although the evaluator had already sent its result
  and run its deferred function, which sets the shared variable \<^verbatim>\<open>vm\<close> to \<^verbatim>\<open>nil\<close> (line
  240), so that \<^verbatim>\<open>vm.Interrupt\<close> on line 262 dereferences \<^verbatim>\<open>nil\<close> and panics.
\<close>

datatype schedule = ResultFirst | DeadlineFirst | DeadlineAfterCleanup

text \<open>
  \<^verbatim>\<open>executeScript(ctx, js, cancel)\<close>, lines 212-265: the new VM, the restricted globals,
  the next script id, the registry entry, the evaluator with its deferred \<open>unregister\<close>,
  and the \<^verbatim>\<open>select\<close>. The context is the schedule; \<open>cancel\<close> is the handle of its cancel
  function. The result is \<open>None\<close> when the function panics. The state returned is the one
  after the evaluator goroutine has ended too.
\<close>

definition executeScript ::
  "engine \<Rightarrow> schedule \<Rightarrow> nat \<Rightarrow> string \<Rightarrow> ScriptManager \<Rightarrow> ScriptManager \<times> ScriptResult option" where
  "executeScript eng sched cancel js sm =
     (let h = vmCount sm;
          globals = restrictedVM eng;
          n = scriptCounter sm + 1;
          sid = ''script-'' @ decimal (unat n);
          sm1 = sm\<lparr>vmCount := Suc h,
                   scriptCounter := n,
                   trace := trace sm @ EvNewVM h # map (EvSet h) restrictedGlobals,
                   runningScripts :=
                     AList.update sid \<lparr>cancelFunc = Some cancel, vm = h, script = js\<rparr>
                       (runningScripts sm)\<rparr>
      in case sched of
           ResultFirst \<Rightarrow>
             (unregister sid (sm1\<lparr>trace := trace sm1 @ [EvRunString h js]\<rparr>),
              Some (evaluatorResult (RunString eng globals js None)))
         | DeadlineFirst \<Rightarrow>
             (unregister sid
                (sm1\<lparr>trace := trace sm1 @
                       [EvRunString h js, EvInterrupt h ''canceled by context'']\<rparr>),
              Some (evaluatorResult (RunString eng globals js (Some ''canceled by context''))))
         | DeadlineAfterCleanup \<Rightarrow>
             (unregister sid (sm1\<lparr>trace := trace sm1 @ [EvRunString h js]\<rparr>), None))"

subsection \<open>\<^verbatim>\<open>worker\<close>\<close>

text \<open>
  The body of the loop \<^verbatim>\<open>for job := range sm.jobQueue\<close> (lines 129-139) for one received
  job: a new context, a token into \<^verbatim>\<open>workerSem\<close> (the send blocks while the semaphore
  is full), \<^verbatim>\<open>executeScript\<close>, the token taken back, the result sent on
  \<^verbatim>\<open>job.ResultChan\<close>. The value returned is what is sent on \<^verbatim>\<open>job.ResultChan\<close>; \<open>None\<close>
  when nothing is ever sent: the worker blocks on the semaphore, or \<^verbatim>\<open>executeScript\<close>
  panics, the deferred \<^verbatim>\<open>recover\<close> (lines 121-127) logs it and starts a new worker, and
  lines 135-138 are skipped.
\<close>

definition workerJob ::
  "engine \<Rightarrow> schedule \<Rightarrow> ScriptJob \<Rightarrow> ScriptManager \<Rightarrow> ScriptManager \<times> ScriptResult option" where
  "workerJob eng sched job sm =
     (let cancel = ctxCount sm;
          sm0 = sm\<lparr>ctxCount := Suc cancel\<rparr>
      in if workerCount sm0 \<le> workerSem sm0 then (sm0, None)
         else
           let sm1 = sm0\<lparr>workerSem := Suc (workerSem sm0)\<rparr>;
               (sm2, result) = executeScript eng sched cancel (Script job) sm1
           in case result of
                None \<Rightarrow> (sm2, None)
              | Some r \<Rightarrow> (sm2\<lparr>workerSem := workerSem sm2 - 1\<rparr>, Some r))"

text \<open>
  One turn of \<^verbatim>\<open>worker\<close>: receive the job at the head of the queue (nothing happens while
  the queue is empty) and run it.
\<close>

definition worker ::
  "engine \<Rightarrow> schedule \<Rightarrow> ScriptManager \<Rightarrow> ScriptManager \<times> ScriptResult option" where
  "worker eng sched sm =
     (case jobQueue sm of
        [] \<Rightarrow> (sm, None)
      | job # rest \<Rightarrow> workerJob eng sched job (sm\<lparr>jobQueue := rest\<rparr>))"

subsection \<open>\<^verbatim>\<open>ExecuteScriptWithTimeout\<close>\<close>

text \<open>
  Lines 148-170. The size check; the non-blocking send on \<^verbatim>\<open>sm.jobQueue\<close>, which
  succeeds exactly when the buffer holds fewer than \<^verbatim>\<open>workerCount\<close> jobs (with capacity 0
  there is no worker either, hence no receiver to hand the job to); then the blocking
  receive \<^verbatim>\<open>result := <-resultChan\<close>. While the caller is blocked the rest of the program
  runs: \<open>wait\<close> is what it does to the state until the reply arrives, and the reply
  (\<open>None\<close> when none ever arrives, and the caller stays blocked). Go's pair
  \<^verbatim>\<open>(interface{}, error)\<close> is a sum: \<open>Inl\<close> the error, \<open>Inr\<close> the value.
\<close>

definition ExecuteScriptWithTimeout ::
  "(ScriptManager \<Rightarrow> ScriptManager \<times> ScriptResult option) \<Rightarrow> string \<Rightarrow> ScriptManager
     \<Rightarrow> ScriptManager \<times> (go_error + go_value) option" where
  "ExecuteScriptWithTimeout wait js sm =
     (if int (length js) > maxScriptSize sm then (sm, Some (Inl ErrScriptTooLarge))
      else if length (jobQueue sm) < workerCount sm then
        (let (sm', reply) = wait (sm\<lparr>jobQueue := jobQueue sm @ [\<lparr>Script = js\<rparr>]\<rparr>)
         in case reply of
              None \<Rightarrow> (sm', None)
            | Some result \<Rightarrow>
                (case Error result of
                   Some err \<Rightarrow> (sm', Some (Inl err))
                 | None \<Rightarrow> (sm', Some (Inr (Result result)))))
      else (sm, Some (Inl ErrNoWorkerAvailable)))"

subsection \<open>The HTTP adapter, \<^verbatim>\<open>ijs_www.go\<close>\<close>

text \<open>
  A request: its method, the bytes its body delivers, and whether the body then ends in
  a read error instead of the end of the stream.
\<close>

record Request =
  Method :: string
  Body :: string
  BodyFails :: bool

text \<open>
  \<^verbatim>\<open>io.ReadAll(io.LimitReader(r.Body, n))\<close>, line 87. The limited reader hands on at most
  \<open>n\<close> bytes and then reports the end of the stream without reading further; for
  \<open>n \<le> 0\<close> it reads nothing. The read error of the body is met only when fewer than
  \<open>n\<close> bytes arrive before it. \<open>None\<close> is \<^verbatim>\<open>err != nil\<close>.
\<close>

definition readBody :: "int \<Rightarrow> Request \<Rightarrow> string option" where
  "readBody n r =
     (if int (length (Body r)) < n \<and> BodyFails r then None
      else Some (take (nat n) (Body r)))"

text \<open>
  What \<^verbatim>\<open>net/http\<close> does with a \<^verbatim>\<open>ResponseWriter\<close>, as far as the handler uses it. The
  handler's header map holds at most a Content-Type. \<^verbatim>\<open>WriteHeader\<close> fixes the status
  and the headers that are sent: a header set later is not sent. \<^verbatim>\<open>Write\<close> sends the
  header with status 200 first when none was written. A response sent without a
  Content-Type (\<open>sentContentType = None\<close>) gets one sniffed from its body by the server.
  Each \<^verbatim>\<open>Write\<close> is one chunk of the body: a line of text, or the JSON object of an
  encoded \<^verbatim>\<open>Response\<close>, given by its fields in order.
\<close>

datatype json = JNull | JBool bool | JInt int | JString string

datatype chunk = Text string | Json "(string \<times> json) list"

record ResponseWriter =
  headerContentType :: "string option"
  wroteHeader :: bool
  status :: nat
  sentContentType :: "string option"
  written :: "chunk list"

definition newResponseWriter :: ResponseWriter where
  "newResponseWriter =
     \<lparr>headerContentType = None, wroteHeader = False, status = 0,
      sentContentType = None, written = []\<rparr>"

definition setContentType :: "string \<Rightarrow> ResponseWriter \<Rightarrow> ResponseWriter" where
  "setContentType v w = w\<lparr>headerContentType := Some v\<rparr>"

definition WriteHeader :: "nat \<Rightarrow> ResponseWriter \<Rightarrow> ResponseWriter" where
  "WriteHeader code w =
     (if wroteHeader w then w
      else w\<lparr>wroteHeader := True, status := code, sentContentType := headerContentType w\<rparr>)"

definition Write :: "chunk \<Rightarrow> ResponseWriter \<Rightarrow> ResponseWriter" where
  "Write c w = (let w' = WriteHeader 200 w in w'\<lparr>written := written w' @ [c]\<rparr>)"

text \<open>\<^verbatim>\<open>http.Error(w, msg, code)\<close>: a plain-text header, the status, the message and a newline.\<close>

definition httpError :: "string \<Rightarrow> nat \<Rightarrow> ResponseWriter \<Rightarrow> ResponseWriter" where
  "httpError msg code w =
     Write (Text (msg @ [CHR 0x0A]))
       (WriteHeader code (setContentType ''text/plain; charset=utf-8'' w))"

text \<open>When the handler returns and has written nothing, the server sends status 200.\<close>

definition finishRequest :: "ResponseWriter \<Rightarrow> ResponseWriter" where
  "finishRequest w = WriteHeader 200 w"

text \<open>
  \<^verbatim>\<open>Response\<close>, lines 19-22. Both fields carry \<^verbatim>\<open>omitempty\<close>: \<^verbatim>\<open>encoding/json\<close> leaves out
  a \<^verbatim>\<open>nil\<close> interface and an empty string. \<open>marshalValue\<close> is \<^verbatim>\<open>encoding/json\<close> on an
  exported value; it fails on NaN.
\<close>

record Response =
  respResult :: go_value
  respError :: string

definition marshalValue :: "go_value \<Rightarrow> json option" where
  "marshalValue v =
     (case v of
        GoNil \<Rightarrow> Some JNull
      | GoBool b \<Rightarrow> Some (JBool b)
      | GoInt i \<Rightarrow> Some (JInt i)
      | GoString s \<Rightarrow> Some (JString s)
      | GoNaN \<Rightarrow> None)"

definition marshalResponse :: "Response \<Rightarrow> (string \<times> json) list option" where
  "marshalResponse r =
     (let errorField = (if respError r = [] then [] else [(''error'', JString (respError r))])
      in if respResult r = GoNil then Some errorField
         else case marshalValue (respResult r) of
                None \<Rightarrow> None
              | Some j \<Rightarrow> Some ((''result'', j) # errorField))"

text \<open>
  \<^verbatim>\<open>json.NewEncoder(w).Encode(response)\<close>, line 119: one \<^verbatim>\<open>Write\<close> of the whole object, or
  no write at all when marshalling fails (the handler only logs that error).
\<close>

definition Encode :: "Response \<Rightarrow> ResponseWriter \<Rightarrow> ResponseWriter" where
  "Encode r w = (case marshalResponse r of None \<Rightarrow> w | Some obj \<Rightarrow> Write (Json obj) w)"

text \<open>\<^verbatim>\<open>handleExecutionError\<close>, lines 131-143.\<close>

definition handleExecutionError :: "go_error \<Rightarrow> ResponseWriter \<Rightarrow> ResponseWriter" where
  "handleExecutionError err w =
     (case err of
        ErrScriptTooLarge \<Rightarrow> WriteHeader 400 w
      | ErrNoWorkerAvailable \<Rightarrow> WriteHeader 503 w
      | _ \<Rightarrow> WriteHeader 500 w)"

text \<open>
  Lines 107-121 of \<^verbatim>\<open>handler\<close>: the response for what \<^verbatim>\<open>ExecuteScriptWithTimeout\<close>
  returned. On an error \<^verbatim>\<open>handleExecutionError\<close> writes the header before line 118 sets
  the Content-Type.
\<close>

definition respond :: "go_error + go_value \<Rightarrow> ResponseWriter \<Rightarrow> ResponseWriter" where
  "respond res w =
     (case res of
        Inl execErr \<Rightarrow>
          Encode \<lparr>respResult = GoNil, respError = errorString execErr\<rparr>
            (setContentType ''application/json'' (handleExecutionError execErr w))
      | Inr result \<Rightarrow>
          Encode \<lparr>respResult = result, respError = []\<rparr>
            (setContentType ''application/json'' w))"

text \<open>
  \<^verbatim>\<open>handler\<close>, lines 70-128, for one request; \<open>wait\<close> as in \<open>ExecuteScriptWithTimeout\<close>.
  The result is the state and the response as the client gets it, \<open>None\<close> when the
  handler never returns.
\<close>

definition handler ::
  "(ScriptManager \<Rightarrow> ScriptManager \<times> ScriptResult option) \<Rightarrow> Request \<Rightarrow> ScriptManager
     \<Rightarrow> ScriptManager \<times> ResponseWriter option" where
  "handler wait r sm =
     (if Method r \<noteq> ''POST'' then
        (sm, Some (httpError ''Only POST requests are allowed'' 405 newResponseWriter))
      else
        case readBody (maxScriptSize sm) r of
          None \<Rightarrow> (sm, Some (httpError ''Failed to read request body'' 400 newResponseWriter))
        | Some body \<Rightarrow>
            if \<not> GetAcceptingScript sm then
              (sm, Some (httpError ''Currently not accepting script, please wait...'' 405
                           newResponseWriter))
            else
              (case ExecuteScriptWithTimeout wait body sm of
                 (sm', None) \<Rightarrow> (sm', None)
               | (sm', Some res) \<Rightarrow>
                   (sm', Some (finishRequest (respond res newResponseWriter)))))"

subsection \<open>Configuration and start\<close>

text \<open>
  The fields of \<^verbatim>\<open>Config\<close> that the script manager reads; the shutdown pause is in
  milliseconds. \<^verbatim>\<open>initializeConfig\<close> ends the process (\<^verbatim>\<open>logrus.Fatalf\<close>) unless the
  memory limit is at least 1 and the script size limit at least 2.
\<close>

record Config =
  MaxMemoryMB :: int
  MaxScriptSize :: int
  WorkerPoolSize :: int
  ShutdownPause :: nat

definition initializeConfig :: "Config \<Rightarrow> Config option" where
  "initializeConfig cfg =
     (if MaxMemoryMB cfg < 1 then None
      else if MaxScriptSize cfg < 2 then None
      else Some cfg)"



subsection \<open>Shutdown and restart\<close>

text \<open>
  \<^verbatim>\<open>handleGraceFullShutdown\<close> after the signal: the scripts are cancelled, the pause is
  slept, \<^verbatim>\<open>main\<close> returns.
\<close>

definition handleGraceFullShutdown :: "Config \<Rightarrow> ScriptManager \<Rightarrow> ScriptManager" where
  "handleGraceFullShutdown cfg sm =
     (let sm1 = cancelAllScripts sm
      in sm1\<lparr>trace := trace sm1 @ [EvSleep (ShutdownPause cfg)], exited := True\<rparr>)"

text \<open>
  \<^verbatim>\<open>restart\<close> returns early with an error when the server does not shut down, when the
  executable is not found or when the new process does not start; otherwise it ends the
  process with \<^verbatim>\<open>os.Exit(0)\<close>. Which of these happens is given from outside.
  \<^verbatim>\<open>scriptManager.Stop()\<close> is \<^verbatim>\<open>cancelAllScripts\<close> and runs once the server has shut down.
\<close>

datatype restart_outcome = ShutdownFailed | ExecutableNotFound | StartFailed | Restarted

definition restart :: "restart_outcome \<Rightarrow> ScriptManager \<Rightarrow> ScriptManager" where
  "restart out sm =
     (let sm1 = sm\<lparr>trace := trace sm @ [EvRestart]\<rparr>
      in if out = ShutdownFailed then sm1
         else let sm2 = cancelAllScripts sm1
              in if out = Restarted then sm2\<lparr>exited := True\<rparr> else sm2)"

subsection \<open>The memory monitor\<close>

text \<open>
  What one turn of the loop in \<^verbatim>\<open>memoryMonitor\<close> reads from outside: \<^verbatim>\<open>memStats.Alloc\<close>
  (a \<^verbatim>\<open>uint64\<close>), \<^verbatim>\<open>time.Now().Unix()\<close>, and how \<^verbatim>\<open>restart\<close> would end.
\<close>

record Sample =
  Alloc :: "64 word"
  Unix :: int
  restartOutcome :: restart_outcome

text \<open>\<^verbatim>\<open>limitBytes := uint64(config.MaxMemoryMB) << 20\<close> and the test of line 181.\<close>

definition limitBytes :: "Config \<Rightarrow> 64 word" where
  "limitBytes cfg = push_bit 20 (word_of_int (MaxMemoryMB cfg))"

definition overLimit :: "Config \<Rightarrow> Sample \<Rightarrow> bool" where
  "overLimit cfg smp = (Alloc smp > limitBytes cfg)"

text \<open>\<^verbatim>\<open>resetMemoryUsage\<close>, lines 267-271.\<close>

definition resetMemoryUsage :: "ScriptManager \<Rightarrow> ScriptManager" where
  "resetMemoryUsage sm = setAcceptingScript True (sm\<lparr>trace := trace sm @ [EvSleep 10000]\<rparr>)"

text \<open>\<^verbatim>\<open>enforceMemoryLimit\<close>, lines 273-285; the new \<^verbatim>\<open>overLimitStart\<close> is returned.\<close>

definition enforceMemoryLimit :: "Sample \<Rightarrow> int \<Rightarrow> ScriptManager \<Rightarrow> ScriptManager \<times> int" where
  "enforceMemoryLimit smp overLimitStart sm =
     (let sm1 = sm\<lparr>trace := trace sm @ [EvGC]\<rparr>
      in if overLimitStart = 0 then (sm1, Unix smp)
         else if Unix smp - overLimitStart > 60 then
           (restart (restartOutcome smp) sm1, overLimitStart)
         else (sm1, overLimitStart))"

text \<open>
  One turn of the loop of \<^verbatim>\<open>memoryMonitor\<close>, lines 176-194, on the manager and the local
  variable \<^verbatim>\<open>overLimitStart\<close>.
\<close>

definition memoryMonitorTick :: "Config \<Rightarrow> Sample \<Rightarrow> ScriptManager \<times> int \<Rightarrow> ScriptManager \<times> int" where
  "memoryMonitorTick cfg smp st =
     (let sm = (fst st)\<lparr>trace := trace (fst st) @ [EvSleep 100]\<rparr>;
          overLimitStart = snd st
      in if overLimit cfg smp then
           enforceMemoryLimit smp overLimitStart
             (if GetAcceptingScript sm then cancelAllScripts (setAcceptingScript False sm)
              else sm)
         else if overLimitStart \<noteq> 0 then (resetMemoryUsage sm, 0)
         else (sm, overLimitStart))"

subsection \<open>Runs of the program\<close>

text \<open>
  The goroutines of the program take turns: a turn of the memory monitor, a request
  handled while a worker serves the queue, a turn of a worker, the shutdown signal.
  Nothing happens once the process has exited. A run applies a list of turns to the
  manager and the monitor's \<^verbatim>\<open>overLimitStart\<close>, which starts at 0.
\<close>

datatype action =
    Tick Sample
  | Serve engine schedule Request
  | Work engine schedule
  | Signal

definition applyAction :: "Config \<Rightarrow> action \<Rightarrow> ScriptManager \<times> int \<Rightarrow> ScriptManager \<times> int" where
  "applyAction cfg a st =
     (if exited (fst st) then st
      else case a of
             Tick smp \<Rightarrow> memoryMonitorTick cfg smp st
           | Serve eng sched r \<Rightarrow> (fst (handler (worker eng sched) r (fst st)), snd st)
           | Work eng sched \<Rightarrow> (fst (worker eng sched (fst st)), snd st)
           | Signal \<Rightarrow> (handleGraceFullShutdown cfg (fst st), snd st))"

definition run :: "Config \<Rightarrow> action list \<Rightarrow> ScriptManager \<times> int \<Rightarrow> ScriptManager \<times> int" where
  "run cfg acts st = foldl (\<lambda>s a. applyAction cfg a s) st acts"

text \<open>How often \<^verbatim>\<open>restart\<close> has been called so far.\<close>

definition restarts :: "ScriptManager \<Rightarrow> nat" where
  "restarts sm = count_list (trace sm) EvRestart"

subsection \<open>Example inputs\<close>

text \<open>
  An engine and a manager for the examples. The engine answers an interrupted run with
  the interrupt's reason as its error, knows the value of \<^verbatim>\<open>2 + 3;\<close>, evaluates the
  script \<^verbatim>\<open>eval\<close> to the binding of that name and \<^verbatim>\<open>typeof Object.defineProperty\<close> to the
  type of what that name observes, and rejects every other source. Its fresh runtime
  binds \<^verbatim>\<open>eval\<close> and an \<^verbatim>\<open>Object\<close> with the functions \<^verbatim>\<open>defineProperty\<close> and \<^verbatim>\<open>create\<close>. The
  manager is \<^verbatim>\<open>NewScriptManager(6, 1)\<close>, the configuration has a memory limit of 1 MB,
  and a sample is a heap size in bytes at a time in seconds, with a \<^verbatim>\<open>restart\<close> that
  would succeed.
\<close>

definition exampleEngine :: engine where
  "exampleEngine =
     \<lparr>builtins =
        [''eval'' \<mapsto> JSBuiltin ''eval'',
         ''Object'' \<mapsto> JSObject [(''defineProperty'', JSBuiltin ''defineProperty''),
                                  (''create'', JSBuiltin ''create'')]],
      RunString = (\<lambda>g js intr.
        case intr of
          Some reason \<Rightarrow> Inl reason
        | None \<Rightarrow>
            if js = ''2 + 3;'' then Inr (GoInt 5)
            else if js = ''eval'' then
              (case g ''eval'' of Some JSNull \<Rightarrow> Inr GoNil | _ \<Rightarrow> Inr (GoString ''function''))
            else if js = ''typeof Object.defineProperty'' then
              (case observe g (referenceOf ''Object.defineProperty'') of
                 None \<Rightarrow> Inr (GoString ''undefined'')
               | Some JSNull \<Rightarrow> Inr (GoString ''object'')
               | Some (JSBuiltin f) \<Rightarrow> Inr (GoString ''function'')
               | Some (JSObject props) \<Rightarrow> Inr (GoString ''object''))
            else Inl ''SyntaxError'')\<rparr>"

definition exampleConfig :: Config where
  "exampleConfig =
     \<lparr>MaxMemoryMB = 1, MaxScriptSize = 6, WorkerPoolSize = 1, ShutdownPause = 0\<rparr>"

definition exampleSample :: "64 word \<Rightarrow> int \<Rightarrow> Sample" where
  "exampleSample alloc t = \<lparr>Alloc = alloc, Unix = t, restartOutcome = Restarted\<rparr>"

definition exampleManager :: ScriptManager where
  "exampleManager =
     \<lparr>runningScripts = [], maxScriptSize = 6, jobQueue = [], workerSem = 0,
      scriptCounter = 0, acceptingScript = 1, workerCount = 1,
      vmCount = 0, ctxCount = 0, exited = False, trace = []\<rparr>"

text \<open>The same manager with two scripts running.\<close>

definition exampleBusyManager :: ScriptManager where
  "exampleBusyManager =
     exampleManager\<lparr>runningScripts :=
       [(''script-1'', \<lparr>cancelFunc = Some 0, vm = 0, script = ''1;''\<rparr>),
        (''script-2'', \<lparr>cancelFunc = Some 1, vm = 1, script = ''2;''\<rparr>)]\<rparr>"

section \<open>Properties\<close>

lemmas http_defs = finishRequest_def respond_def Encode_def marshalResponse_def marshalValue_def
  Write_def WriteHeader_def setContentType_def newResponseWriter_def handleExecutionError_def
  httpError_def

lemmas exec_defs = ExecuteScriptWithTimeout_def worker_def workerJob_def executeScript_def
  unregister_def evaluatorResult_def

lemma decimal_1: "decimal 1 = ''1''"
  by (simp add: decimal.simps)

subsection \<open>\<^verbatim>\<open>cancelAllScripts\<close>\<close>

lemma cancelEntries_trace:
  "trace (cancelEntries es sm) = trace sm @ concat (map entryEvents es)"
  by (induction es arbitrary: sm) simp_all

lemma cancelEntries_runningScripts:
  "runningScripts (cancelEntries es sm) =
     filter (\<lambda>p. fst p \<notin> fst ` set es) (runningScripts sm)"
proof (induction es arbitrary: sm)
  case Nil
  then show ?case by simp
next
  case (Cons p rest)
  have "AList.delete (fst p) xs = filter (\<lambda>q. fst q \<noteq> fst p) xs"
    for xs :: "(string \<times> RunningScriptInfo) list"
    by (induction xs) (auto simp: AList.delete_eq)
  with Cons show ?case
    by (simp add: conj_commute cong: filter_cong)
qed

lemma cancelAllScripts_runningScripts: "runningScripts (cancelAllScripts sm) = []"
  by (simp add: cancelAllScripts_def cancelEntries_runningScripts filter_empty_conv)

lemma cancelAllScripts_trace:
  "trace (cancelAllScripts sm) = trace sm @ concat (map entryEvents (runningScripts sm))"
  by (simp add: cancelAllScripts_def cancelEntries_trace)

text \<open>
  C8. \<^verbatim>\<open>cancelAllScripts\<close> adds to the trace, for each entry of the registry in the
  order of the iteration, the call \<^verbatim>\<open>vm.Interrupt("Script cancelled")\<close> on the entry's VM
  followed by the call of the entry's cancel function (when the entry has one); it
  leaves the registry empty; and the evaluator's own removal of an id afterwards changes
  nothing.
\<close>

theorem cancelAllScripts_interrupts_all:
  "trace (cancelAllScripts sm) = trace sm @ concat (map entryEvents (runningScripts sm))
   \<and> runningScripts (cancelAllScripts sm) = []
   \<and> unregister sid (cancelAllScripts sm) = cancelAllScripts sm"
proof -
  have "unregister sid (cancelAllScripts sm) = cancelAllScripts sm"
    by (simp add: unregister_def cancelAllScripts_runningScripts)
  with cancelAllScripts_trace cancelAllScripts_runningScripts show ?thesis
    by simp
qed

theorem cancelAllScripts_interrupts_all_witness:
  "trace (cancelAllScripts
      (exampleManager\<lparr>runningScripts :=
         [(''script-1'', \<lparr>cancelFunc = Some 0, vm = 0, script = ''1;''\<rparr>),
          (''script-2'', \<lparr>cancelFunc = Some 1, vm = 1, script = ''2;''\<rparr>)]\<rparr>)) =
     [EvInterrupt 0 ''Script cancelled'', EvCancel 0,
      EvInterrupt 1 ''Script cancelled'', EvCancel 1]
   \<and> runningScripts (cancelAllScripts
      (exampleManager\<lparr>runningScripts :=
         [(''script-1'', \<lparr>cancelFunc = Some 0, vm = 0, script = ''1;''\<rparr>),
          (''script-2'', \<lparr>cancelFunc = Some 1, vm = 1, script = ''2;''\<rparr>)]\<rparr>)) = []"
  using cancelAllScripts_interrupts_all
    [of "exampleManager\<lparr>runningScripts :=
         [(''script-1'', \<lparr>cancelFunc = Some 0, vm = 0, script = ''1;''\<rparr>),
          (''script-2'', \<lparr>cancelFunc = Some 1, vm = 1, script = ''2;''\<rparr>)]\<rparr>"]
  by (simp add: exampleManager_def entryEvents_def)

subsection \<open>\<^verbatim>\<open>executeScript\<close>\<close>

lemma fold_set_null:
  "fold (\<lambda>global m. m(global \<mapsto> JSNull)) gs m0 g =
     (if g \<in> set gs then Some JSNull else m0 g)"
  by (induction gs arbitrary: m0) auto

lemma executeScript_trace:
  "\<exists>rest. trace (fst (executeScript eng sched c js sm)) =
     trace sm @ EvNewVM (vmCount sm) # map (EvSet (vmCount sm)) restrictedGlobals @
       EvRunString (vmCount sm) js # rest"
  by (cases sched) (simp_all add: executeScript_def Let_def unregister_def)

lemma restrictedVM_apply:
  "restrictedVM eng name =
     (if name \<in> set restrictedGlobals then Some JSNull else builtins eng name)"
  by (simp add: restrictedVM_def fold_set_null)

lemma splitDots_plain: "CHR ''.'' \<notin> set name \<Longrightarrow> splitDots name = [name]"
  by (induction name) auto

lemma referenceOf_plain: "CHR ''.'' \<notin> set name \<Longrightarrow> referenceOf name = Ident name"
  by (simp add: referenceOf_def splitDots_plain)

lemma plain_restricted_names:
  "filter (\<lambda>name. CHR ''.'' \<notin> set name) restrictedGlobals =
     [''eval'', ''process'', ''child_process'', ''require'', ''global'', ''globalThis'',
      ''window'', ''self'', ''module'', ''exports'', ''__dirname'', ''__filename'',
      ''XMLHttpRequest'', ''fetch'', ''WebSocket'', ''Proxy'', ''exec'', ''execSync'',
      ''spawn'', ''fs'', ''FileSystem'', ''writeFile'', ''readFile'', ''setInterval'',
      ''setTimeout'', ''setImmediate'', ''crypto'', ''randomBytes'', ''document'',
      ''alert'', ''confirm'', ''prompt'']"
  by (simp add: restrictedGlobals_def)

lemma dotted_restricted_names:
  "filter (\<lambda>name. CHR ''.'' \<in> set name) restrictedGlobals =
     [''Object.defineProperty'', ''Object.create'', ''Runtime.getRuntime'']"
  by (simp add: restrictedGlobals_def)

lemma referenceOf_dotted:
  "referenceOf ''Object.defineProperty'' = Member (Ident ''Object'') ''defineProperty''"
  "referenceOf ''Object.create'' = Member (Ident ''Object'') ''create''"
  "referenceOf ''Runtime.getRuntime'' = Member (Ident ''Runtime'') ''getRuntime''"
  by (simp_all add: referenceOf_def)

lemma heads_not_restricted:
  "''Object'' \<notin> set restrictedGlobals" "''Runtime'' \<notin> set restrictedGlobals"
  by (simp_all add: restrictedGlobals_def)

text \<open>
  C4. \<^verbatim>\<open>executeScript\<close> calls \<^verbatim>\<open>vm.Set(name, nil)\<close> for every entry of the list, after
  \<^verbatim>\<open>sobek.New()\<close> and before \<^verbatim>\<open>vm.RunString(js)\<close>, and runs the script on the VM with these
  bindings. For the 32 entries that are plain identifiers a script that mentions the
  name observes null. For the three entries with a dot the call binds a global property
  whose key is the whole text; \<^verbatim>\<open>Object\<close> and \<^verbatim>\<open>Runtime\<close> are not in the list, so a script
  that mentions \<^verbatim>\<open>Object.defineProperty\<close>, \<^verbatim>\<open>Object.create\<close> or \<^verbatim>\<open>Runtime.getRuntime\<close>
  observes exactly what it observes on a VM fresh from the engine.
\<close>

theorem dotted_globals_not_shadowed:
  "(\<forall>name \<in> set restrictedGlobals. restrictedVM eng name = Some JSNull)
   \<and> filter (\<lambda>name. CHR ''.'' \<notin> set name) restrictedGlobals =
       [''eval'', ''process'', ''child_process'', ''require'', ''global'', ''globalThis'',
        ''window'', ''self'', ''module'', ''exports'', ''__dirname'', ''__filename'',
        ''XMLHttpRequest'', ''fetch'', ''WebSocket'', ''Proxy'', ''exec'', ''execSync'',
        ''spawn'', ''fs'', ''FileSystem'', ''writeFile'', ''readFile'', ''setInterval'',
        ''setTimeout'', ''setImmediate'', ''crypto'', ''randomBytes'', ''document'',
        ''alert'', ''confirm'', ''prompt'']
   \<and> (\<forall>name \<in> set restrictedGlobals.
         CHR ''.'' \<notin> set name \<longrightarrow>
           observe (restrictedVM eng) (referenceOf name) = Some JSNull)
   \<and> filter (\<lambda>name. CHR ''.'' \<in> set name) restrictedGlobals =
       [''Object.defineProperty'', ''Object.create'', ''Runtime.getRuntime'']
   \<and> (\<forall>name \<in> set restrictedGlobals.
         CHR ''.'' \<in> set name \<longrightarrow>
           observe (restrictedVM eng) (referenceOf name) =
             observe (builtins eng) (referenceOf name))
   \<and> (\<exists>rest. trace (fst (executeScript eng sched c js sm)) =
          trace sm @ EvNewVM (vmCount sm) # map (EvSet (vmCount sm)) restrictedGlobals @
            EvRunString (vmCount sm) js # rest)
   \<and> (snd (executeScript eng sched c js sm) = None
        \<or> (\<exists>i. snd (executeScript eng sched c js sm) =
              Some (evaluatorResult (RunString eng (restrictedVM eng) js i))))"
proof -
  have a: "\<forall>name \<in> set restrictedGlobals. restrictedVM eng name = Some JSNull"
    by (simp add: restrictedVM_apply)
  have b: "\<forall>name \<in> set restrictedGlobals.
         CHR ''.'' \<notin> set name \<longrightarrow>
           observe (restrictedVM eng) (referenceOf name) = Some JSNull"
    by (simp add: referenceOf_plain restrictedVM_apply)
  have c: "\<forall>name \<in> set restrictedGlobals.
         CHR ''.'' \<in> set name \<longrightarrow>
           observe (restrictedVM eng) (referenceOf name) =
             observe (builtins eng) (referenceOf name)"
  proof (intro ballI impI)
    fix name
    assume "name \<in> set restrictedGlobals" and "CHR ''.'' \<in> set name"
    then have "name \<in> set (filter (\<lambda>name. CHR ''.'' \<in> set name) restrictedGlobals)"
      by simp
    then have "name = ''Object.defineProperty'' \<or> name = ''Object.create''
               \<or> name = ''Runtime.getRuntime''"
      unfolding dotted_restricted_names by simp
    then show "observe (restrictedVM eng) (referenceOf name) =
                 observe (builtins eng) (referenceOf name)"
      by (auto simp: referenceOf_dotted restrictedVM_apply heads_not_restricted)
  qed
  have d: "snd (executeScript eng sched c js sm) = None
        \<or> (\<exists>i. snd (executeScript eng sched c js sm) =
              Some (evaluatorResult (RunString eng (restrictedVM eng) js i)))"
    by (cases sched) (auto simp: executeScript_def Let_def)
  from a b c d plain_restricted_names dotted_restricted_names executeScript_trace
  show ?thesis by blast
qed

theorem dotted_globals_not_shadowed_witness:
  "''Object.defineProperty'' \<in> set restrictedGlobals
   \<and> restrictedVM exampleEngine ''Object.defineProperty'' = Some JSNull
   \<and> observe (restrictedVM exampleEngine) (referenceOf ''Object.defineProperty'') =
       Some (JSBuiltin ''defineProperty'')
   \<and> snd (executeScript exampleEngine ResultFirst 0 ''typeof Object.defineProperty''
            exampleManager) = Some \<lparr>Result = GoString ''function'', Error = None\<rparr>
   \<and> ''eval'' \<in> set restrictedGlobals
   \<and> builtins exampleEngine ''eval'' = Some (JSBuiltin ''eval'')
   \<and> observe (restrictedVM exampleEngine) (referenceOf ''eval'') = Some JSNull
   \<and> snd (executeScript exampleEngine ResultFirst 0 ''eval'' exampleManager) =
       Some \<lparr>Result = GoNil, Error = None\<rparr>"
proof -
  note t = dotted_globals_not_shadowed [of exampleEngine ResultFirst 0 "''eval''" exampleManager]
  have m: "''Object.defineProperty'' \<in> set restrictedGlobals" "''eval'' \<in> set restrictedGlobals"
    by (simp_all add: restrictedGlobals_def)
  have dot: "CHR ''.'' \<in> set ''Object.defineProperty''" "CHR ''.'' \<notin> set ''eval''"
    by simp_all
  from t m(1) have n1: "restrictedVM exampleEngine ''Object.defineProperty'' = Some JSNull"
    by blast
  from t m(1) dot(1)
  have "observe (restrictedVM exampleEngine) (referenceOf ''Object.defineProperty'') =
          observe (builtins exampleEngine) (referenceOf ''Object.defineProperty'')"
    by blast
  then have o1: "observe (restrictedVM exampleEngine) (referenceOf ''Object.defineProperty'') =
       Some (JSBuiltin ''defineProperty'')"
    by (simp add: referenceOf_dotted exampleEngine_def)
  from t m(2) dot(2)
  have o2: "observe (restrictedVM exampleEngine) (referenceOf ''eval'') = Some JSNull"
    by blast
  then have g: "restrictedVM exampleEngine ''eval'' = Some JSNull"
    by (simp add: referenceOf_plain)
  have r1: "snd (executeScript exampleEngine ResultFirst 0 ''typeof Object.defineProperty''
            exampleManager) = Some \<lparr>Result = GoString ''function'', Error = None\<rparr>"
    using o1 by (simp add: executeScript_def Let_def exampleEngine_def evaluatorResult_def)
  have r2: "snd (executeScript exampleEngine ResultFirst 0 ''eval'' exampleManager) =
       Some \<lparr>Result = GoNil, Error = None\<rparr>"
    using g by (simp add: executeScript_def Let_def exampleEngine_def evaluatorResult_def)
  from m n1 o1 o2 r1 r2 show ?thesis by (simp add: exampleEngine_def)
qed

text \<open>
  C2. When the deadline fires while the evaluator is still running, \<^verbatim>\<open>executeScript\<close>
  calls \<^verbatim>\<open>vm.Interrupt("canceled by context")\<close> and then returns what the evaluator sent:
  the engine's value, or the engine's error wrapped as "script execution failed: ...".
  It never returns \<^verbatim>\<open>ErrScriptTimeout\<close>, and the message of the wrapped error is never
  "script execution timed out": the engine's failure after the interrupt is what the
  caller gets, not a timeout.
\<close>

theorem deadline_returns_evaluator_result:
  "snd (executeScript eng DeadlineFirst cancel js sm) =
     Some (evaluatorResult (RunString eng (restrictedVM eng) js (Some ''canceled by context'')))
   \<and> (\<exists>pre. trace (fst (executeScript eng DeadlineFirst cancel js sm)) =
          pre @ [EvRunString (vmCount sm) js, EvInterrupt (vmCount sm) ''canceled by context''])
   \<and> Error (evaluatorResult out) \<noteq> Some ErrScriptTimeout
   \<and> errorString (ErrExecutionFailed detail) \<noteq> errorString ErrScriptTimeout"
proof -
  have a: "snd (executeScript eng DeadlineFirst cancel js sm) =
     Some (evaluatorResult (RunString eng (restrictedVM eng) js (Some ''canceled by context'')))"
    by (simp add: executeScript_def Let_def)
  have b: "\<exists>pre. trace (fst (executeScript eng DeadlineFirst cancel js sm)) =
          pre @ [EvRunString (vmCount sm) js, EvInterrupt (vmCount sm) ''canceled by context'']"
    by (simp add: executeScript_def Let_def unregister_def)
  have c: "Error (evaluatorResult out) \<noteq> Some ErrScriptTimeout"
    by (cases out) (simp_all add: evaluatorResult_def)
  have d: "errorString (ErrExecutionFailed detail) \<noteq> errorString ErrScriptTimeout"
    by simp
  from a b c d show ?thesis by blast
qed

theorem deadline_returns_evaluator_result_witness:
  "snd (executeScript exampleEngine DeadlineFirst 0 ''while(true){}'' exampleManager) =
     Some \<lparr>Result = GoNil, Error = Some (ErrExecutionFailed ''canceled by context'')\<rparr>
   \<and> errorString (ErrExecutionFailed ''canceled by context'') =
       ''script execution failed: canceled by context''"
  using deadline_returns_evaluator_result [of exampleEngine 0 "''while(true){}''" exampleManager]
  by (simp add: exampleEngine_def evaluatorResult_def)

subsection \<open>The handler\<close>

lemma status_httpError: "status (httpError msg code newResponseWriter) = code"
  by (simp add: httpError_def Write_def WriteHeader_def setContentType_def
      newResponseWriter_def Let_def)

lemma status_respond:
  "status (finishRequest (respond res newResponseWriter)) =
     (case res of Inl ErrScriptTooLarge \<Rightarrow> 400 | Inl ErrNoWorkerAvailable \<Rightarrow> 503
                | Inl _ \<Rightarrow> 500 | Inr _ \<Rightarrow> 200)"
  by (simp add: finishRequest_def respond_def Encode_def Write_def WriteHeader_def
      setContentType_def newResponseWriter_def handleExecutionError_def Let_def
      split: sum.splits go_error.splits option.splits)

lemma worker_reply_not_too_large:
  "snd (worker eng sched sm) = Some res \<Longrightarrow> Error res \<noteq> Some ErrScriptTooLarge"
  by (cases sched)
     (auto simp: worker_def workerJob_def executeScript_def Let_def evaluatorResult_def
        split: list.splits if_splits sum.splits)

lemma worker_trace:
  assumes "jobQueue sm = job # queued" and "workerSem sm < workerCount sm"
  shows "\<exists>rest. trace (fst (worker eng sched sm)) =
           trace sm @ EvNewVM (vmCount sm) # map (EvSet (vmCount sm)) restrictedGlobals @
             EvRunString (vmCount sm) (Script job) # rest"
  using assms
  by (cases sched)
     (simp_all add: worker_def workerJob_def executeScript_def unregister_def Let_def)

lemma handler_status_400:
  assumes "handler (worker eng sched) r sm = (sm', Some w)" and "status w = 400"
  shows "readBody (maxScriptSize sm) r = None
         \<or> (\<exists>body. readBody (maxScriptSize sm) r = Some body
                \<and> maxScriptSize sm < int (length body))"
proof (cases "readBody (maxScriptSize sm) r")
  case None
  then show ?thesis by simp
next
  case (Some body)
  let ?queued = "sm\<lparr>jobQueue := jobQueue sm @ [\<lparr>Script = body\<rparr>]\<rparr>"
  show ?thesis
  proof (rule ccontr)
    assume "\<not> ?thesis"
    with Some have small: "\<not> maxScriptSize sm < int (length body)" by simp
    obtain sm1 reply where wk: "worker eng sched ?queued = (sm1, reply)"
      by (cases "worker eng sched ?queued")
    have nl: "reply = Some res \<Longrightarrow> Error res \<noteq> Some ErrScriptTooLarge" for res
      using worker_reply_not_too_large [of eng sched ?queued res] wk by simp
    from assms Some small wk nl show False
      by (auto simp: handler_def status_httpError status_respond ExecuteScriptWithTimeout_def
            split: if_splits option.splits go_error.splits)
  qed
qed

text \<open>
  C1. A request whose body is longer than \<^verbatim>\<open>maxScriptSize\<close> is never answered with
  status 400: the limited reader cuts the body to \<^verbatim>\<open>maxScriptSize\<close> bytes without an
  error, the cut body passes the size check of \<^verbatim>\<open>ExecuteScriptWithTimeout\<close>, and a worker
  builds a VM and runs the prefix. The example is a body of 19 bytes under a limit of 6:
  the answer is status 200 with the value of the first 6 bytes.
\<close>

theorem oversize_body_not_rejected:
  assumes "0 \<le> maxScriptSize sm"
      and "maxScriptSize sm < int (length (Body r))"
      and "handler (worker eng sched) r sm = (sm', Some w)"
  shows "status w \<noteq> 400"
proof
  assume "status w = 400"
  with assms(3) have "readBody (maxScriptSize sm) r = None
         \<or> (\<exists>body. readBody (maxScriptSize sm) r = Some body
                \<and> maxScriptSize sm < int (length body))"
    by (rule handler_status_400)
  with assms(1,2) show False
    by (auto simp: readBody_def)
qed

theorem oversize_body_not_rejected_witness:
  "handler (worker exampleEngine ResultFirst)
     \<lparr>Method = ''POST'', Body = ''2 + 3;while(true){}'', BodyFails = False\<rparr> exampleManager =
   (exampleManager\<lparr>scriptCounter := 1, vmCount := 1, ctxCount := 1,
      trace := EvNewVM 0 # map (EvSet 0) restrictedGlobals @ [EvRunString 0 ''2 + 3;'']\<rparr>,
    Some \<lparr>headerContentType = Some ''application/json'', wroteHeader = True, status = 200,
          sentContentType = Some ''application/json'',
          written = [Json [(''result'', JInt 5)]]\<rparr>)
   \<and> maxScriptSize exampleManager < int (length ''2 + 3;while(true){}'')"
proof -
  let ?r = "\<lparr>Method = ''POST'', Body = ''2 + 3;while(true){}'', BodyFails = False\<rparr>"
  have h: "handler (worker exampleEngine ResultFirst) ?r exampleManager =
   (exampleManager\<lparr>scriptCounter := 1, vmCount := 1, ctxCount := 1,
      trace := EvNewVM 0 # map (EvSet 0) restrictedGlobals @ [EvRunString 0 ''2 + 3;'']\<rparr>,
    Some \<lparr>headerContentType = Some ''application/json'', wroteHeader = True, status = 200,
          sentContentType = Some ''application/json'',
          written = [Json [(''result'', JInt 5)]]\<rparr>)"
    by (simp add: handler_def exampleManager_def exampleEngine_def readBody_def
          GetAcceptingScript_def exec_defs http_defs Let_def decimal_1)
  have a: "0 \<le> maxScriptSize exampleManager" by (simp add: exampleManager_def)
  have b: "maxScriptSize exampleManager < int (length (Body ?r))"
    by (simp add: exampleManager_def)
  from oversize_body_not_rejected [OF a b h] h b show ?thesis by simp
qed

text \<open>
  C3. While the gate is closed, a POST request whose body was read gets the plain-text
  answer "Currently not accepting script, please wait..." with status 405, and the
  manager is left as it was: no job is put on the queue and nothing waits for a worker.
  The status is 405 (\<^verbatim>\<open>http.StatusMethodNotAllowed\<close>, line 97), not 503.
\<close>

theorem closed_gate_answer:
  assumes "Method r = ''POST''"
      and "readBody (maxScriptSize sm) r = Some body"
      and "\<not> GetAcceptingScript sm"
  shows "handler wait r sm =
     (sm, Some \<lparr>headerContentType = Some ''text/plain; charset=utf-8'', wroteHeader = True,
                status = 405, sentContentType = Some ''text/plain; charset=utf-8'',
                written = [Text (''Currently not accepting script, please wait...''
                                   @ [CHR 0x0A])]\<rparr>)"
  using assms by (simp add: handler_def http_defs Let_def)

theorem closed_gate_answer_witness:
  "Method \<lparr>Method = ''POST'', Body = ''1;'', BodyFails = False\<rparr> = ''POST''
   \<and> \<not> GetAcceptingScript (exampleManager\<lparr>acceptingScript := 0\<rparr>)
   \<and> (case snd (handler (worker exampleEngine ResultFirst)
                   \<lparr>Method = ''POST'', Body = ''1;'', BodyFails = False\<rparr>
                   (exampleManager\<lparr>acceptingScript := 0\<rparr>)) of
         None \<Rightarrow> False
       | Some w \<Rightarrow> status w = 405 \<and> status w \<noteq> 503)"
proof -
  let ?r = "\<lparr>Method = ''POST'', Body = ''1;'', BodyFails = False\<rparr>"
  let ?sm = "exampleManager\<lparr>acceptingScript := 0\<rparr>"
  have a: "Method ?r = ''POST''" by simp
  have b: "readBody (maxScriptSize ?sm) ?r = Some ''1;''"
    by (simp add: readBody_def exampleManager_def)
  have c: "\<not> GetAcceptingScript ?sm" by (simp add: GetAcceptingScript_def)
  from closed_gate_answer [OF a b c, of "worker exampleEngine ResultFirst"] a c
  show ?thesis by simp
qed

text \<open>
  C5. With a script size limit that is not negative (\<^verbatim>\<open>initializeConfig\<close> demands at
  least 2), the string that \<^verbatim>\<open>handler\<close> hands to \<^verbatim>\<open>ExecuteScriptWithTimeout\<close> is the
  first \<^verbatim>\<open>maxScriptSize\<close> bytes of the request body; it is never longer than
  \<^verbatim>\<open>maxScriptSize\<close>, so the call never returns \<^verbatim>\<open>ErrScriptTooLarge\<close>; and when the queue
  is empty and a worker is free, the script that the worker's VM runs is this prefix.
\<close>

theorem handler_passes_truncated_body:
  assumes "0 \<le> maxScriptSize sm"
      and "Method r = ''POST''"
      and "readBody (maxScriptSize sm) r = Some body"
      and "GetAcceptingScript sm"
  shows "body = take (nat (maxScriptSize sm)) (Body r)
    \<and> int (length body) \<le> maxScriptSize sm
    \<and> handler (worker eng sched) r sm =
        (case ExecuteScriptWithTimeout (worker eng sched) body sm of
           (sm', None) \<Rightarrow> (sm', None)
         | (sm', Some res) \<Rightarrow> (sm', Some (finishRequest (respond res newResponseWriter))))
    \<and> snd (ExecuteScriptWithTimeout (worker eng sched) body sm) \<noteq> Some (Inl ErrScriptTooLarge)
    \<and> (jobQueue sm = [] \<and> workerSem sm < workerCount sm \<longrightarrow>
         (\<exists>rest. trace (fst (handler (worker eng sched) r sm)) =
            trace sm @ EvNewVM (vmCount sm) # map (EvSet (vmCount sm)) restrictedGlobals @
              EvRunString (vmCount sm) body # rest))"
proof -
  let ?queued = "sm\<lparr>jobQueue := jobQueue sm @ [\<lparr>Script = body\<rparr>]\<rparr>"
  have a: "body = take (nat (maxScriptSize sm)) (Body r)"
    using assms(3) by (simp add: readBody_def split: if_splits)
  have b: "int (length body) \<le> maxScriptSize sm"
    using assms(1) a by simp
  have c: "handler (worker eng sched) r sm =
        (case ExecuteScriptWithTimeout (worker eng sched) body sm of
           (sm', None) \<Rightarrow> (sm', None)
         | (sm', Some res) \<Rightarrow> (sm', Some (finishRequest (respond res newResponseWriter))))"
    using assms(2,3,4) by (simp add: handler_def)
  have d: "snd (ExecuteScriptWithTimeout (worker eng sched) body sm)
             \<noteq> Some (Inl ErrScriptTooLarge)"
  proof
    assume e: "snd (ExecuteScriptWithTimeout (worker eng sched) body sm)
                 = Some (Inl ErrScriptTooLarge)"
    obtain sm1 reply where wk: "worker eng sched ?queued = (sm1, reply)"
      by (cases "worker eng sched ?queued")
    have "reply = Some res \<Longrightarrow> Error res \<noteq> Some ErrScriptTooLarge" for res
      using worker_reply_not_too_large [of eng sched ?queued res] wk by simp
    with e b wk show False
      by (auto simp: ExecuteScriptWithTimeout_def split: if_splits option.splits)
  qed
  have e: "\<exists>rest. trace (fst (handler (worker eng sched) r sm)) =
            trace sm @ EvNewVM (vmCount sm) # map (EvSet (vmCount sm)) restrictedGlobals @
              EvRunString (vmCount sm) body # rest"
    if q: "jobQueue sm = []" and w: "workerSem sm < workerCount sm"
  proof -
    have "jobQueue ?queued = \<lparr>Script = body\<rparr> # []" using q by simp
    moreover have "workerSem ?queued < workerCount ?queued" using w by simp
    ultimately obtain rest where t: "trace (fst (worker eng sched ?queued)) =
           trace ?queued @ EvNewVM (vmCount ?queued) #
             map (EvSet (vmCount ?queued)) restrictedGlobals @
             EvRunString (vmCount ?queued) (Script \<lparr>Script = body\<rparr>) # rest"
      using worker_trace by blast
    have "fst (handler (worker eng sched) r sm) = fst (worker eng sched ?queued)"
      using b q w c
      by (simp add: ExecuteScriptWithTimeout_def split: prod.splits option.splits)
    with t show ?thesis by simp
  qed
  from a b c d e show ?thesis by blast
qed

theorem handler_passes_truncated_body_witness:
  "readBody (maxScriptSize exampleManager)
      \<lparr>Method = ''POST'', Body = ''eval(1);'', BodyFails = False\<rparr> = Some ''eval(1''
   \<and> ''eval(1'' = take 6 ''eval(1);''
   \<and> snd (ExecuteScriptWithTimeout (worker exampleEngine ResultFirst) ''eval(1'' exampleManager)
       = Some (Inl (ErrExecutionFailed ''SyntaxError''))"
proof -
  let ?r = "\<lparr>Method = ''POST'', Body = ''eval(1);'', BodyFails = False\<rparr>"
  have a: "0 \<le> maxScriptSize exampleManager" by (simp add: exampleManager_def)
  have b: "Method ?r = ''POST''" by simp
  have c: "readBody (maxScriptSize exampleManager) ?r = Some ''eval(1''"
    by (simp add: readBody_def exampleManager_def)
  have d: "GetAcceptingScript exampleManager"
    by (simp add: GetAcceptingScript_def exampleManager_def)
  have e: "snd (ExecuteScriptWithTimeout (worker exampleEngine ResultFirst) ''eval(1''
                  exampleManager) = Some (Inl (ErrExecutionFailed ''SyntaxError''))"
    by (simp add: exampleManager_def exampleEngine_def exec_defs Let_def decimal_1)
  from handler_passes_truncated_body [OF a b c d, of exampleEngine ResultFirst] c e
  show ?thesis by simp
qed


lemma errorString_nonempty: "errorString e \<noteq> []"
  by (cases e) simp_all






subsection \<open>\<^verbatim>\<open>ExecuteScriptWithTimeout\<close>\<close>




subsection \<open>The memory monitor\<close>

text \<open>
  The test of line 181 compares bytes: for a limit below \<open>2 ^ 44\<close> megabytes the shift
  does not wrap, and the sample is over the limit exactly when it exceeds
  \<^verbatim>\<open>MaxMemoryMB\<close> megabytes.
\<close>

lemma limitBytes_uint:
  assumes "0 \<le> MaxMemoryMB cfg" and "MaxMemoryMB cfg < 2 ^ 44"
  shows "uint (limitBytes cfg) = MaxMemoryMB cfg * 2 ^ 20"
  using assms
  by (simp add: limitBytes_def push_bit_eq_mult uint_word_ariths uint_word_of_int
        mod_mult_left_eq)

lemma overLimit_megabytes:
  assumes "0 \<le> MaxMemoryMB cfg" and "MaxMemoryMB cfg < 2 ^ 44"
  shows "overLimit cfg smp \<longleftrightarrow> MaxMemoryMB cfg * 2 ^ 20 < uint (Alloc smp)"
  using limitBytes_uint [OF assms] by (simp add: overLimit_def word_less_def)

lemma entryEvents_no_restart: "count_list (entryEvents p) EvRestart = 0"
  by (simp add: entryEvents_def split: option.splits)

lemma cancelEntries_frame:
  "acceptingScript (cancelEntries es sm) = acceptingScript sm
   \<and> exited (cancelEntries es sm) = exited sm
   \<and> restarts (cancelEntries es sm) = restarts sm"
  by (induction es arbitrary: sm) (simp_all add: restarts_def entryEvents_no_restart)

lemma cancelAllScripts_frame:
  "acceptingScript (cancelAllScripts sm) = acceptingScript sm
   \<and> exited (cancelAllScripts sm) = exited sm
   \<and> restarts (cancelAllScripts sm) = restarts sm"
  by (simp add: cancelAllScripts_def cancelEntries_frame)

lemma EvSet_no_restart: "count_list (map (EvSet h) gs) EvRestart = 0"
  by (induction gs) simp_all

lemma executeScript_frame:
  "acceptingScript (fst (executeScript eng sched c js sm)) = acceptingScript sm
   \<and> exited (fst (executeScript eng sched c js sm)) = exited sm
   \<and> restarts (fst (executeScript eng sched c js sm)) = restarts sm"
  by (cases sched)
     (simp_all add: executeScript_def Let_def unregister_def restarts_def EvSet_no_restart)

lemma workerJob_frame:
  "acceptingScript (fst (workerJob eng sched job sm)) = acceptingScript sm
   \<and> exited (fst (workerJob eng sched job sm)) = exited sm
   \<and> restarts (fst (workerJob eng sched job sm)) = restarts sm"
proof (cases "workerCount sm \<le> workerSem sm")
  case True
  then show ?thesis by (simp add: workerJob_def Let_def restarts_def)
next
  case False
  let ?sm1 = "sm\<lparr>ctxCount := Suc (ctxCount sm), workerSem := Suc (workerSem sm)\<rparr>"
  obtain sm2 res where e: "executeScript eng sched (ctxCount sm) (Script job) ?sm1 = (sm2, res)"
    by (cases "executeScript eng sched (ctxCount sm) (Script job) ?sm1")
  from executeScript_frame [of eng sched "ctxCount sm" "Script job" ?sm1] e
  have "acceptingScript sm2 = acceptingScript sm \<and> exited sm2 = exited sm
        \<and> restarts sm2 = restarts sm"
    by (simp add: restarts_def)
  with False e show ?thesis
    by (cases res) (simp_all add: workerJob_def Let_def restarts_def)
qed

lemma worker_frame:
  "acceptingScript (fst (worker eng sched sm)) = acceptingScript sm
   \<and> exited (fst (worker eng sched sm)) = exited sm
   \<and> restarts (fst (worker eng sched sm)) = restarts sm"
proof (cases "jobQueue sm")
  case Nil
  then show ?thesis by (simp add: worker_def)
next
  case (Cons job rest)
  with workerJob_frame [of eng sched job "sm\<lparr>jobQueue := rest\<rparr>"] show ?thesis
    by (simp add: worker_def restarts_def)
qed

lemma ExecuteScriptWithTimeout_frame:
  "acceptingScript (fst (ExecuteScriptWithTimeout (worker eng sched) js sm)) = acceptingScript sm
   \<and> exited (fst (ExecuteScriptWithTimeout (worker eng sched) js sm)) = exited sm
   \<and> restarts (fst (ExecuteScriptWithTimeout (worker eng sched) js sm)) = restarts sm"
proof -
  let ?queued = "sm\<lparr>jobQueue := jobQueue sm @ [\<lparr>Script = js\<rparr>]\<rparr>"
  obtain sm1 reply where w: "worker eng sched ?queued = (sm1, reply)"
    by (cases "worker eng sched ?queued")
  from worker_frame [of eng sched ?queued] w
  have "acceptingScript sm1 = acceptingScript sm \<and> exited sm1 = exited sm
        \<and> restarts sm1 = restarts sm"
    by (simp add: restarts_def)
  with w show ?thesis
    by (simp add: ExecuteScriptWithTimeout_def split: option.splits)
qed

lemma handler_frame:
  "acceptingScript (fst (handler (worker eng sched) r sm)) = acceptingScript sm
   \<and> exited (fst (handler (worker eng sched) r sm)) = exited sm
   \<and> restarts (fst (handler (worker eng sched) r sm)) = restarts sm"
proof -
  have "fst (handler (worker eng sched) r sm) = sm
        \<or> (\<exists>body. fst (handler (worker eng sched) r sm) =
              fst (ExecuteScriptWithTimeout (worker eng sched) body sm))"
    by (auto simp: handler_def split: option.splits prod.splits) (metis fst_conv)+
  with ExecuteScriptWithTimeout_frame show ?thesis by auto
qed

lemma restart_frame:
  "acceptingScript (restart out sm) = acceptingScript sm
   \<and> restarts (restart out sm) = Suc (restarts sm)"
  using cancelAllScripts_frame [of "sm\<lparr>trace := trace sm @ [EvRestart]\<rparr>"]
  by (simp add: restart_def Let_def restarts_def)

lemma enforceMemoryLimit_frame:
  "acceptingScript (fst (enforceMemoryLimit smp ols sm)) = acceptingScript sm
   \<and> snd (enforceMemoryLimit smp ols sm) = (if ols = 0 then Unix smp else ols)
   \<and> restarts (fst (enforceMemoryLimit smp ols sm)) =
       restarts sm + (if ols \<noteq> 0 \<and> 60 < Unix smp - ols then 1 else 0)"
  using restart_frame [of "restartOutcome smp" "sm\<lparr>trace := trace sm @ [EvGC]\<rparr>"]
  by (simp add: enforceMemoryLimit_def Let_def restarts_def)

lemma tick_over:
  assumes "overLimit cfg smp"
  shows "\<not> GetAcceptingScript (fst (memoryMonitorTick cfg smp st))
   \<and> snd (memoryMonitorTick cfg smp st) = (if snd st = 0 then Unix smp else snd st)
   \<and> restarts (fst (memoryMonitorTick cfg smp st)) =
       restarts (fst st) + (if snd st \<noteq> 0 \<and> 60 < Unix smp - snd st then 1 else 0)"
proof -
  let ?sm = "(fst st)\<lparr>trace := trace (fst st) @ [EvSleep 100]\<rparr>"
  let ?sm1 = "if GetAcceptingScript ?sm then cancelAllScripts (setAcceptingScript False ?sm)
              else ?sm"
  have t: "memoryMonitorTick cfg smp st = enforceMemoryLimit smp (snd st) ?sm1"
    using assms by (simp add: memoryMonitorTick_def Let_def)
  have a: "acceptingScript ?sm1 \<noteq> 1"
    using cancelAllScripts_frame [of "setAcceptingScript False ?sm"]
    by (simp add: GetAcceptingScript_def setAcceptingScript_def)
  have r: "restarts ?sm1 = restarts (fst st)"
    using cancelAllScripts_frame [of "setAcceptingScript False ?sm"]
    by (simp add: setAcceptingScript_def restarts_def)
  from enforceMemoryLimit_frame [of smp "snd st" ?sm1] t a r show ?thesis
    by (simp add: GetAcceptingScript_def)
qed

lemma tick_under:
  assumes "\<not> overLimit cfg smp"
  shows "memoryMonitorTick cfg smp st =
     (if snd st \<noteq> 0
      then ((fst st)\<lparr>acceptingScript := 1,
                      trace := trace (fst st) @ [EvSleep 100, EvSleep 10000, EvAccepting True]\<rparr>, 0)
      else ((fst st)\<lparr>trace := trace (fst st) @ [EvSleep 100]\<rparr>, 0))"
  using assms
  by (simp add: memoryMonitorTick_def Let_def resetMemoryUsage_def setAcceptingScript_def)


lemma run_snoc: "run cfg (acts @ [a]) st = applyAction cfg a (run cfg acts st)"
  by (simp add: run_def)

lemma handleGraceFullShutdown_frame:
  "acceptingScript (handleGraceFullShutdown cfg sm) = acceptingScript sm
   \<and> restarts (handleGraceFullShutdown cfg sm) = restarts sm"
  using cancelAllScripts_frame [of sm]
  by (simp add: handleGraceFullShutdown_def Let_def restarts_def)

lemma applyAction_other:
  assumes "\<And>smp. a \<noteq> Tick smp"
  shows "snd (applyAction cfg a st) = snd st
   \<and> acceptingScript (fst (applyAction cfg a st)) = acceptingScript (fst st)
   \<and> restarts (fst (applyAction cfg a st)) = restarts (fst st)"
proof (cases a)
  case (Tick smp)
  with assms show ?thesis by blast
next
  case (Serve eng sched r)
  with handler_frame [of eng sched r "fst st"] show ?thesis
    by (simp add: applyAction_def)
next
  case (Work eng sched)
  with worker_frame [of eng sched "fst st"] show ?thesis
    by (simp add: applyAction_def)
next
  case Signal
  with handleGraceFullShutdown_frame [of cfg "fst st"] show ?thesis
    by (simp add: applyAction_def)
qed

lemma applyAction_exited: "exited (fst st) \<Longrightarrow> applyAction cfg a st = st"
  by (simp add: applyAction_def)

lemma applyAction_tick:
  "\<not> exited (fst st) \<Longrightarrow> applyAction cfg (Tick smp) st = memoryMonitorTick cfg smp st"
  by (simp add: applyAction_def)

lemma exited_stays: "exited (fst st) \<Longrightarrow> exited (fst (applyAction cfg a st))"
  by (simp add: applyAction_def)

lemma run_invariant:
  "exited (fst (run cfg acts (sm0, 0)))
   \<or> snd (run cfg acts (sm0, 0)) = 0
   \<or> (\<exists>before s0 after.
         acts = before @ Tick s0 # after \<and> Unix s0 = snd (run cfg acts (sm0, 0))
         \<and> overLimit cfg s0 \<and> (\<forall>s. Tick s \<in> set after \<longrightarrow> overLimit cfg s))"
proof (induction acts rule: rev_induct)
  case Nil
  then show ?case by (simp add: run_def)
next
  case (snoc a acts)
  let ?st = "run cfg acts (sm0, 0)"
  let ?st' = "run cfg (acts @ [a]) (sm0, 0)"
  have st': "?st' = applyAction cfg a ?st" by (rule run_snoc)
  show ?case
  proof (cases "exited (fst ?st)")
    case True
    then show ?thesis using st' by (simp add: applyAction_exited)
  next
    case live: False
    show ?thesis
    proof (cases "\<exists>smp. a = Tick smp")
      case False
      then have other: "\<And>smp. a \<noteq> Tick smp" by blast
      from applyAction_other [OF other, of cfg ?st] st'
      have same: "snd ?st' = snd ?st" by simp
      show ?thesis
      proof (cases "snd ?st = 0")
        case True
        with same show ?thesis by simp
      next
        case False
        with snoc.IH live obtain before s0 after where
          d: "acts = before @ Tick s0 # after" "Unix s0 = snd ?st" "overLimit cfg s0"
             "\<forall>s. Tick s \<in> set after \<longrightarrow> overLimit cfg s"
          by blast
        from d(1) have "acts @ [a] = before @ Tick s0 # (after @ [a])" by simp
        moreover from d(4) other have "\<forall>s. Tick s \<in> set (after @ [a]) \<longrightarrow> overLimit cfg s"
          by auto
        ultimately show ?thesis using d(2,3) same by metis
      qed
    next
      case True
      then obtain smp where a: "a = Tick smp" by blast
      with live st' have t: "?st' = memoryMonitorTick cfg smp ?st"
        by (simp add: applyAction_tick)
      show ?thesis
      proof (cases "overLimit cfg smp")
        case False
        then have "snd ?st' = 0" using t by (simp add: tick_under)
        then show ?thesis by simp
      next
        case over: True
        from tick_over [OF over, of ?st] t
        have s: "snd ?st' = (if snd ?st = 0 then Unix smp else snd ?st)" by simp
        show ?thesis
        proof (cases "snd ?st = 0")
          case True
          with s have "Unix smp = snd ?st'" by simp
          moreover have "acts @ [a] = acts @ Tick smp # []" using a by simp
          ultimately show ?thesis using over by (metis empty_iff list.set(1))
        next
          case False
          with snoc.IH live obtain before s0 after where
            d: "acts = before @ Tick s0 # after" "Unix s0 = snd ?st" "overLimit cfg s0"
               "\<forall>s. Tick s \<in> set after \<longrightarrow> overLimit cfg s"
            by blast
          from d(1) a have "acts @ [a] = before @ Tick s0 # (after @ [Tick smp])" by simp
          moreover from d(4) over
          have "\<forall>s. Tick s \<in> set (after @ [Tick smp]) \<longrightarrow> overLimit cfg s" by auto
          moreover from s False d(2) have "Unix s0 = snd ?st'" by simp
          ultimately show ?thesis using d(3) by metis
        qed
      qed
    qed
  qed
qed


lemmas monitor_defs = run_def applyAction_def memoryMonitorTick_def overLimit_def limitBytes_def
  GetAcceptingScript_def setAcceptingScript_def cancelAllScripts_def enforceMemoryLimit_def
  resetMemoryUsage_def restart_def exampleManager_def exampleConfig_def exampleSample_def

lemma example_over: "overLimit exampleConfig (exampleSample 2097152 t)"
  by (simp add: overLimit_def limitBytes_def exampleConfig_def exampleSample_def)

lemma example_under: "\<not> overLimit exampleConfig (exampleSample 524288 t)"
  by (simp add: overLimit_def limitBytes_def exampleConfig_def exampleSample_def)

lemma example_busy_run2:
  "run exampleConfig [Tick (exampleSample 2097152 100), Tick (exampleSample 2097152 130)]
     (exampleBusyManager, 0) =
   (exampleManager\<lparr>acceptingScript := 0,
      trace := [EvSleep 100, EvAccepting False,
                EvInterrupt 0 ''Script cancelled'', EvCancel 0,
                EvInterrupt 1 ''Script cancelled'', EvCancel 1,
                EvGC, EvSleep 100, EvGC]\<rparr>, 100)"
  by (simp add: monitor_defs exampleBusyManager_def entryEvents_def Let_def)

lemma example_run2:
  "run exampleConfig [Tick (exampleSample 2097152 100), Tick (exampleSample 2097152 130)]
     (exampleManager, 0) =
   (exampleManager\<lparr>acceptingScript := 0,
      trace := [EvSleep 100, EvAccepting False, EvGC, EvSleep 100, EvGC]\<rparr>, 100)"
  by (simp add: monitor_defs Let_def)

lemma enforceMemoryLimit_trace:
  "\<exists>rest. trace (fst (enforceMemoryLimit smp ols sm)) = trace sm @ EvGC # rest"
  by (simp add: enforceMemoryLimit_def restart_def Let_def cancelAllScripts_trace)

lemma enforceMemoryLimit_runningScripts:
  "runningScripts sm = [] \<Longrightarrow> runningScripts (fst (enforceMemoryLimit smp ols sm)) = []"
  by (simp add: enforceMemoryLimit_def restart_def Let_def cancelAllScripts_runningScripts)

lemma tick_first_stage:
  assumes "overLimit cfg smp" and "GetAcceptingScript sm"
  shows "\<not> GetAcceptingScript (fst (memoryMonitorTick cfg smp (sm, ols)))
      \<and> runningScripts (fst (memoryMonitorTick cfg smp (sm, ols))) = []
      \<and> (\<exists>rest. trace (fst (memoryMonitorTick cfg smp (sm, ols))) =
            trace sm @ [EvSleep 100, EvAccepting False] @
              concat (map entryEvents (runningScripts sm)) @ EvGC # rest)"
proof -
  let ?slept = "sm\<lparr>trace := trace sm @ [EvSleep 100]\<rparr>"
  let ?cancelled = "cancelAllScripts (setAcceptingScript False ?slept)"
  have t: "memoryMonitorTick cfg smp (sm, ols) = enforceMemoryLimit smp ols ?cancelled"
    using assms by (simp add: memoryMonitorTick_def Let_def GetAcceptingScript_def)
  have c: "trace ?cancelled =
      trace sm @ [EvSleep 100, EvAccepting False] @ concat (map entryEvents (runningScripts sm))"
    by (simp add: cancelAllScripts_trace setAcceptingScript_def)
  obtain rest where
    "trace (fst (enforceMemoryLimit smp ols ?cancelled)) = trace ?cancelled @ EvGC # rest"
    using enforceMemoryLimit_trace by blast
  with c t have "trace (fst (memoryMonitorTick cfg smp (sm, ols))) =
            trace sm @ [EvSleep 100, EvAccepting False] @
              concat (map entryEvents (runningScripts sm)) @ EvGC # rest"
    by simp
  moreover have "runningScripts (fst (memoryMonitorTick cfg smp (sm, ols))) = []"
    using t by (simp add: enforceMemoryLimit_runningScripts cancelAllScripts_runningScripts)
  moreover have "\<not> GetAcceptingScript (fst (memoryMonitorTick cfg smp (sm, ols)))"
    using tick_over [OF assms(1), of "(sm, ols)"] by simp
  ultimately show ?thesis by blast
qed

lemma escalation_needs_streak:
  assumes "restarts (fst (run cfg acts (sm0, 0)))
             < restarts (fst (applyAction cfg a (run cfg acts (sm0, 0))))"
  shows "\<exists>smp before s0 after.
           a = Tick smp \<and> overLimit cfg smp \<and> acts = before @ Tick s0 # after
           \<and> overLimit cfg s0 \<and> (\<forall>s. Tick s \<in> set after \<longrightarrow> overLimit cfg s)
           \<and> 60 < Unix smp - Unix s0"
proof -
  let ?st = "run cfg acts (sm0, 0)"
  have live: "\<not> exited (fst ?st)"
    using assms by (auto simp: applyAction_exited)
  have "\<exists>smp. a = Tick smp"
  proof (rule ccontr)
    assume "\<not> ?thesis"
    then have "\<And>smp. a \<noteq> Tick smp" by blast
    from applyAction_other [OF this, of cfg ?st] assms show False by simp
  qed
  then obtain smp where a: "a = Tick smp" by blast
  with live have t: "applyAction cfg a ?st = memoryMonitorTick cfg smp ?st"
    by (simp add: applyAction_tick)
  have over: "overLimit cfg smp"
  proof (rule ccontr)
    assume "\<not> ?thesis"
    then have "restarts (fst (memoryMonitorTick cfg smp ?st)) = restarts (fst ?st)"
      by (simp add: tick_under restarts_def)
    with t assms show False by simp
  qed
  from tick_over [OF over, of ?st] t assms
  have late: "snd ?st \<noteq> 0 \<and> 60 < Unix smp - snd ?st"
    by (simp split: if_splits)
  with run_invariant [of cfg acts sm0] live obtain before s0 after where
    d: "acts = before @ Tick s0 # after" "Unix s0 = snd ?st" "overLimit cfg s0"
       "\<forall>s. Tick s \<in> set after \<longrightarrow> overLimit cfg s"
    by blast
  from late d(2) have "60 < Unix smp - Unix s0" by simp
  with a over d(1,3,4) show ?thesis by blast
qed

lemma reopening_needs_recovery:
  assumes "\<not> GetAcceptingScript (fst (run cfg acts (sm0, 0)))"
      and "GetAcceptingScript (fst (applyAction cfg a (run cfg acts (sm0, 0))))"
  shows "\<exists>smp before s0 after.
           a = Tick smp \<and> \<not> overLimit cfg smp \<and> acts = before @ Tick s0 # after
           \<and> overLimit cfg s0 \<and> (\<forall>s. Tick s \<in> set after \<longrightarrow> overLimit cfg s)
           \<and> trace (fst (applyAction cfg a (run cfg acts (sm0, 0)))) =
               trace (fst (run cfg acts (sm0, 0))) @
                 [EvSleep 100, EvSleep 10000, EvAccepting True]"
proof -
  let ?st = "run cfg acts (sm0, 0)"
  have live: "\<not> exited (fst ?st)"
    using assms by (auto simp: applyAction_exited)
  have "\<exists>smp. a = Tick smp"
  proof (rule ccontr)
    assume "\<not> ?thesis"
    then have "\<And>smp. a \<noteq> Tick smp" by blast
    from applyAction_other [OF this, of cfg ?st] assms show False
      by (simp add: GetAcceptingScript_def)
  qed
  then obtain smp where a: "a = Tick smp" by blast
  with live have t: "applyAction cfg a ?st = memoryMonitorTick cfg smp ?st"
    by (simp add: applyAction_tick)
  have under: "\<not> overLimit cfg smp"
    using tick_over [of cfg smp ?st] t assms(2) by auto
  have set: "snd ?st \<noteq> 0"
    using tick_under [OF under, of ?st] t assms
    by (auto simp: GetAcceptingScript_def split: if_splits)
  have tr: "trace (fst (applyAction cfg a ?st)) =
               trace (fst ?st) @ [EvSleep 100, EvSleep 10000, EvAccepting True]"
    using tick_under [OF under, of ?st] t set by simp
  from run_invariant [of cfg acts sm0] live set obtain before s0 after where
    "acts = before @ Tick s0 # after" "overLimit cfg s0"
    "\<forall>s. Tick s \<in> set after \<longrightarrow> overLimit cfg s"
    by blast
  with a under tr show ?thesis by blast
qed

text \<open>
  C9. A turn of the monitor that finds the heap over the limit while the gate is open
  closes the gate and cancels every registered script in that same turn, before the
  garbage collection: after the store that closes the gate come, for each entry of the
  registry, \<^verbatim>\<open>vm.Interrupt("Script cancelled")\<close> on its VM and the call of its cancel
  function (when it has one), and the gate is closed and the registry empty when the
  turn ends.
  And in every run of the program that starts with \<^verbatim>\<open>overLimitStart = 0\<close>, a turn in
  which \<^verbatim>\<open>restart\<close> is called is a turn of the monitor over the limit, preceded by a turn
  over the limit whose time was recorded, with every turn of the monitor in between over
  the limit too, and with more than 60 seconds between the recorded time and now.
\<close>

theorem watchdog_closes_gate_then_escalates:
  "(overLimit cfg smp \<and> GetAcceptingScript sm \<longrightarrow>
      \<not> GetAcceptingScript (fst (memoryMonitorTick cfg smp (sm, ols)))
      \<and> runningScripts (fst (memoryMonitorTick cfg smp (sm, ols))) = []
      \<and> (\<exists>rest. trace (fst (memoryMonitorTick cfg smp (sm, ols))) =
            trace sm @ [EvSleep 100, EvAccepting False] @
              concat (map (\<lambda>p. EvInterrupt (vm (snd p)) ''Script cancelled'' #
                                (case cancelFunc (snd p) of
                                   None \<Rightarrow> []
                                 | Some c \<Rightarrow> [EvCancel c]))
                          (runningScripts sm)) @
              EvGC # rest))
   \<and> (restarts (fst (run cfg acts (sm0, 0)))
         < restarts (fst (applyAction cfg a (run cfg acts (sm0, 0)))) \<longrightarrow>
      (\<exists>smp' before s0 after.
           a = Tick smp' \<and> overLimit cfg smp' \<and> acts = before @ Tick s0 # after
           \<and> overLimit cfg s0 \<and> (\<forall>s. Tick s \<in> set after \<longrightarrow> overLimit cfg s)
           \<and> 60 < Unix smp' - Unix s0))"
proof -
  have "map entryEvents es =
          map (\<lambda>p. EvInterrupt (vm (snd p)) ''Script cancelled'' #
                     (case cancelFunc (snd p) of None \<Rightarrow> [] | Some c \<Rightarrow> [EvCancel c])) es"
    for es
    by (simp add: entryEvents_def)
  with tick_first_stage [of cfg smp sm ols] escalation_needs_streak [of cfg acts sm0 a]
  show ?thesis by simp
qed

theorem watchdog_closes_gate_then_escalates_witness:
  "overLimit exampleConfig (exampleSample 2097152 100)
   \<and> GetAcceptingScript exampleBusyManager
   \<and> memoryMonitorTick exampleConfig (exampleSample 2097152 100) (exampleBusyManager, 0) =
       (exampleManager\<lparr>acceptingScript := 0,
          trace := [EvSleep 100, EvAccepting False,
                    EvInterrupt 0 ''Script cancelled'', EvCancel 0,
                    EvInterrupt 1 ''Script cancelled'', EvCancel 1,
                    EvGC]\<rparr>, 100)
   \<and> restarts (fst (run exampleConfig
         [Tick (exampleSample 2097152 100), Tick (exampleSample 2097152 130)]
         (exampleBusyManager, 0))) = 0
   \<and> restarts (fst (applyAction exampleConfig (Tick (exampleSample 2097152 161))
         (run exampleConfig
            [Tick (exampleSample 2097152 100), Tick (exampleSample 2097152 130)]
            (exampleBusyManager, 0)))) = 1
   \<and> 60 < Unix (exampleSample 2097152 161) - Unix (exampleSample 2097152 100)"
proof -
  let ?acts = "[Tick (exampleSample 2097152 100), Tick (exampleSample 2097152 130)]"
  have a: "overLimit exampleConfig (exampleSample 2097152 100)"
    by (rule example_over)
  have g: "GetAcceptingScript exampleBusyManager"
    by (simp add: GetAcceptingScript_def exampleBusyManager_def exampleManager_def)
  have t: "memoryMonitorTick exampleConfig (exampleSample 2097152 100) (exampleBusyManager, 0) =
       (exampleManager\<lparr>acceptingScript := 0,
          trace := [EvSleep 100, EvAccepting False,
                    EvInterrupt 0 ''Script cancelled'', EvCancel 0,
                    EvInterrupt 1 ''Script cancelled'', EvCancel 1,
                    EvGC]\<rparr>, 100)"
    by (simp add: monitor_defs exampleBusyManager_def entryEvents_def Let_def)
  have b: "restarts (fst (run exampleConfig ?acts (exampleBusyManager, 0))) = 0"
    unfolding example_busy_run2 by (simp add: restarts_def exampleManager_def)
  have c: "restarts (fst (applyAction exampleConfig (Tick (exampleSample 2097152 161))
         (run exampleConfig ?acts (exampleBusyManager, 0)))) = 1"
    unfolding example_busy_run2
    by (simp add: monitor_defs restarts_def Let_def)
  have d: "60 < Unix (exampleSample 2097152 161) - Unix (exampleSample 2097152 100)"
    by (simp add: exampleSample_def)
  from watchdog_closes_gate_then_escalates
         [of exampleConfig "exampleSample 2097152 100" exampleBusyManager 0 ?acts
             exampleBusyManager "Tick (exampleSample 2097152 161)"]
       a g t b c d
  show ?thesis by simp
qed

text \<open>
  C10. In every run of the program that starts with \<^verbatim>\<open>overLimitStart = 0\<close>, a turn that
  finds the gate closed and leaves it open is a turn of the monitor whose sample is not
  over the limit; an earlier turn of the monitor was over the limit and so was every
  turn of the monitor since; and what the turn did is the monitor's sleep, the sleep of
  10 seconds, and then the store that opens the gate. Conversely, a turn of the monitor
  under the limit with \<^verbatim>\<open>overLimitStart\<close> set sleeps 10 seconds and then opens the gate.
\<close>

theorem gate_reopens_only_on_recovery:
  "(\<not> GetAcceptingScript (fst (run cfg acts (sm0, 0)))
      \<and> GetAcceptingScript (fst (applyAction cfg a (run cfg acts (sm0, 0)))) \<longrightarrow>
      (\<exists>smp before s0 after.
           a = Tick smp \<and> \<not> overLimit cfg smp \<and> acts = before @ Tick s0 # after
           \<and> overLimit cfg s0 \<and> (\<forall>s. Tick s \<in> set after \<longrightarrow> overLimit cfg s)
           \<and> trace (fst (applyAction cfg a (run cfg acts (sm0, 0)))) =
               trace (fst (run cfg acts (sm0, 0))) @
                 [EvSleep 100, EvSleep 10000, EvAccepting True]))
   \<and> (\<not> overLimit cfg smp' \<and> ols \<noteq> 0 \<longrightarrow>
        memoryMonitorTick cfg smp' (sm, ols) =
          (sm\<lparr>acceptingScript := 1,
              trace := trace sm @ [EvSleep 100, EvSleep 10000, EvAccepting True]\<rparr>, 0)
        \<and> GetAcceptingScript (fst (memoryMonitorTick cfg smp' (sm, ols))))"
proof -
  have "memoryMonitorTick cfg smp' (sm, ols) =
          (sm\<lparr>acceptingScript := 1,
              trace := trace sm @ [EvSleep 100, EvSleep 10000, EvAccepting True]\<rparr>, 0)
        \<and> GetAcceptingScript (fst (memoryMonitorTick cfg smp' (sm, ols)))"
    if "\<not> overLimit cfg smp'" and "ols \<noteq> 0"
    using that by (simp add: tick_under GetAcceptingScript_def)
  with reopening_needs_recovery show ?thesis by blast
qed


theorem gate_reopens_only_on_recovery_witness:
  "\<not> GetAcceptingScript
       (fst (run exampleConfig [Tick (exampleSample 2097152 100)] (exampleManager, 0)))
   \<and> GetAcceptingScript
       (fst (applyAction exampleConfig (Tick (exampleSample 524288 101))
          (run exampleConfig [Tick (exampleSample 2097152 100)] (exampleManager, 0))))
   \<and> trace (fst (applyAction exampleConfig (Tick (exampleSample 524288 101))
          (run exampleConfig [Tick (exampleSample 2097152 100)] (exampleManager, 0)))) =
       [EvSleep 100, EvAccepting False, EvGC, EvSleep 100, EvSleep 10000, EvAccepting True]"
proof -
  let ?acts = "[Tick (exampleSample 2097152 100)]"
  have r: "run exampleConfig ?acts (exampleManager, 0) =
      (exampleManager\<lparr>acceptingScript := 0,
         trace := [EvSleep 100, EvAccepting False, EvGC]\<rparr>, 100)"
    by (simp add: monitor_defs Let_def)
  have a: "\<not> GetAcceptingScript (fst (run exampleConfig ?acts (exampleManager, 0)))"
    unfolding r by (simp add: GetAcceptingScript_def)
  have b: "GetAcceptingScript
       (fst (applyAction exampleConfig (Tick (exampleSample 524288 101))
          (run exampleConfig ?acts (exampleManager, 0))))"
    unfolding r by (simp add: monitor_defs Let_def)
  from gate_reopens_only_on_recovery
         [of exampleConfig ?acts exampleManager "Tick (exampleSample 524288 101)"]
       a b r
  show ?thesis by auto
qed

end
